theory Spec2Isabelle
  imports Complex_Main
begin

section \<open>Array cells\<close>

text \<open>
  The functions of \<^verbatim>\<open>src/models/demand_ninja.py\<close> and \<^verbatim>\<open>src/models/wind.py\<close> work on
  xarray arrays of floats. A cell of such an array is modelled as a real number or as NaN,
  the marker numpy uses for a missing value. Arithmetic on numbers is exact: rounding,
  overflow and the infinities of IEEE arithmetic are outside this model. Arrays are
  modelled along the \<^verbatim>\<open>step\<close> dimension only, as lists of cells in chronological order;
  the operations below act cell by cell on every other dimension.
\<close>

datatype cell = NaN | Num real

text \<open>An arithmetic operation with a NaN operand gives NaN.\<close>

fun cadd :: "cell \<Rightarrow> cell \<Rightarrow> cell" where
  "cadd (Num a) (Num b) = Num (a + b)"
| "cadd _ _ = NaN"

fun csub :: "cell \<Rightarrow> cell \<Rightarrow> cell" where
  "csub (Num a) (Num b) = Num (a - b)"
| "csub _ _ = NaN"

fun cmul :: "cell \<Rightarrow> cell \<Rightarrow> cell" where
  "cmul (Num a) (Num b) = Num (a * b)"
| "cmul _ _ = NaN"

text \<open>
  numpy's division never raises. \<^verbatim>\<open>0 / 0\<close> is NaN there; a non-zero number divided by zero
  is an infinity, which this model does not have and also maps to NaN. No statement below
  relies on the value of a non-zero number divided by zero.
\<close>

fun cdiv :: "cell \<Rightarrow> cell \<Rightarrow> cell" where
  "cdiv (Num a) (Num b) = (if b = 0 then NaN else Num (a / b))"
| "cdiv _ _ = NaN"

fun cneg :: "cell \<Rightarrow> cell" where
  "cneg (Num a) = Num (- a)"
| "cneg NaN = NaN"

fun cexp :: "cell \<Rightarrow> cell" where
  "cexp (Num a) = Num (exp a)"
| "cexp NaN = NaN"

fun cpow :: "cell \<Rightarrow> nat \<Rightarrow> cell" where
  "cpow (Num a) n = Num (a ^ n)"
| "cpow NaN n = NaN"

text \<open>A comparison with a NaN operand is false.\<close>

fun clt :: "cell \<Rightarrow> cell \<Rightarrow> bool" where
  "clt (Num a) (Num b) = (a < b)"
| "clt _ _ = False"

fun cgt :: "cell \<Rightarrow> cell \<Rightarrow> bool" where
  "cgt (Num a) (Num b) = (a > b)"
| "cgt _ _ = False"

fun cle :: "cell \<Rightarrow> cell \<Rightarrow> bool" where
  "cle (Num a) (Num b) = (a \<le> b)"
| "cle _ _ = False"

fun cge :: "cell \<Rightarrow> cell \<Rightarrow> bool" where
  "cge (Num a) (Num b) = (a \<ge> b)"
| "cge _ _ = False"

section \<open>Degree days\<close>

text \<open>
  \<^verbatim>\<open>hdd = xr.where(temperature < threshold, threshold - temperature, 0)\<close> and
  \<^verbatim>\<open>cdd = xr.where(temperature > threshold, temperature - threshold, 0)\<close>: where the
  comparison is false, also at a NaN cell, the result is the number 0.
\<close>

definition get_hdd :: "cell list \<Rightarrow> real \<Rightarrow> cell list" where
  "get_hdd temperature threshold =
     map (\<lambda>t. if clt t (Num threshold) then csub (Num threshold) t else Num 0) temperature"

definition get_cdd :: "cell list \<Rightarrow> real \<Rightarrow> cell list" where
  "get_cdd temperature threshold =
     map (\<lambda>t. if cgt t (Num threshold) then csub t (Num threshold) else Num 0) temperature"

section \<open>Weighted causal smoothing\<close>

text \<open>
  The exceptions the smoother can raise: the \<^verbatim>\<open>assert\<close> of the function itself, and the
  \<^verbatim>\<open>ValueError\<close> of the rolling-window machinery of the array library.
\<close>

datatype error = AssertionError | ValueError

text \<open>
  \<^verbatim>\<open>temperature.rolling(step=W, min_periods=1).construct('window')\<close>: the series is padded
  in front with \<open>W - 1\<close> NaN cells, and the window of step \<open>t\<close> is the \<open>W\<close> cells of the
  padded series from position \<open>t\<close> on, the cell of step \<open>t\<close> last. \<^verbatim>\<open>min_periods\<close> has no
  effect on \<^verbatim>\<open>construct\<close>.
\<close>

definition construct :: "nat \<Rightarrow> cell list \<Rightarrow> cell list list" where
  "construct W xs = map (\<lambda>t. take W (drop t (replicate (W - 1) NaN @ xs))) [0..<length xs]"

text \<open>\<^verbatim>\<open>.fillna(fill_value)\<close> on one cell.\<close>

fun fillna :: "cell \<Rightarrow> cell \<Rightarrow> cell" where
  "fillna fill_value NaN = fill_value"
| "fillna fill_value (Num a) = Num a"

text \<open>\<^verbatim>\<open>.dot(weights_da, dims=['window'])\<close> on one window: the sum of the products.\<close>

fun dot :: "cell list \<Rightarrow> real list \<Rightarrow> cell" where
  "dot (x # xs) (w # ws) = cadd (cmul x (Num w)) (dot xs ws)"
| "dot _ _ = Num 0"

text \<open>
  The loop of the \<^verbatim>\<open>keep_all_days\<close> path. \<open>norm_step\<close> is one iteration,
  \<^verbatim>\<open>normalization_factors[:i+1] = np.sum(weights[-(i+1):])\<close>, where \<open>weights\<close> is the
  reversed (chronological) list: the slice assignment overwrites every position before
  \<open>i + 1\<close>. \<open>normalization_factors\<close> starts from \<^verbatim>\<open>xr.full_like(smoothed,
  total_weights_sum)\<close> and runs the iterations for \<^verbatim>\<open>i in range(len(weights))\<close>.
\<close>

definition norm_step :: "real list \<Rightarrow> real list \<Rightarrow> nat \<Rightarrow> real list" where
  "norm_step weights nf i =
     (let truncated_weights_sum = sum_list (drop (length weights - (i + 1)) weights)
      in replicate (min (i + 1) (length nf)) truncated_weights_sum @ drop (i + 1) nf)"

definition normalization_factors :: "nat \<Rightarrow> real list \<Rightarrow> real list" where
  "normalization_factors n weights =
     foldl (norm_step weights) (replicate n (sum_list weights)) [0..<length weights]"

text \<open>
  \<^verbatim>\<open>smooth_temperature_xarray(temperature, weights, keep_all_days)\<close>. The weights come
  most recent first and are reversed. With \<^verbatim>\<open>keep_all_days\<close> the function asserts that
  no cell is NaN and fills the windows with 0, otherwise it fills them with NaN (which
  leaves them as they are). \<^verbatim>\<open>rolling\<close> raises \<^verbatim>\<open>ValueError\<close> for a window of length
  0, and the window construction raises it for a series without a step (the padded series
  is then shorter than the window).
\<close>

definition smooth_temperature_xarray ::
    "cell list \<Rightarrow> real list \<Rightarrow> bool \<Rightarrow> error + cell list" where
  "smooth_temperature_xarray temperature weights0 keep_all_days =
     (let weights = rev weights0;
          fill_value = (if keep_all_days then Num 0 else NaN)
      in if keep_all_days \<and> NaN \<in> set temperature then Inl AssertionError
         else if length weights = 0 then Inl ValueError
         else if temperature = [] then Inl ValueError
         else
           let smoothed = map (\<lambda>window. dot (map (fillna fill_value) window) weights)
                              (construct (length weights) temperature);
               total_weights_sum = sum_list weights
           in if keep_all_days
              then Inr (map2 (\<lambda>s f. cdiv s (Num f)) smoothed
                          (normalization_factors (length smoothed) weights))
              else Inr (map (\<lambda>s. cdiv s (Num total_weights_sum)) smoothed))"

text \<open>
  The divisor the specification asks for at step \<open>t\<close> of the \<^verbatim>\<open>keep_all_days\<close> path, in
  its own words: the sum of the weights whose offsets correspond to steps that exist, that
  is of the first \<open>t + 1\<close> weights of the list as supplied (most recent first).
\<close>

definition spec_truncated_weight_sum :: "real list \<Rightarrow> nat \<Rightarrow> real" where
  "spec_truncated_weight_sum weights0 t = sum_list (take (t + 1) weights0)"

section \<open>Building-adjusted internal temperature\<close>

text \<open>
  The weather \<^verbatim>\<open>Dataset\<close>: four variables over the one \<^verbatim>\<open>step\<close> dimension, so the four
  lists have the same length.
\<close>

record weather =
  humidity :: "cell list"
  radiation_global_horizontal :: "cell list"
  temperature :: "cell list"
  wind_speed_2m :: "cell list"

text \<open>The setpoints, as functions of one temperature cell.\<close>

definition setpoint_S :: "cell \<Rightarrow> cell" where
  "setpoint_S T = cadd (Num 100) (cmul (Num 7) T)"

definition setpoint_W :: "cell \<Rightarrow> cell" where
  "setpoint_W T = csub (Num 4.5) (cmul (Num 0.025) T)"

definition setpoint_H :: "cell \<Rightarrow> cell" where
  "setpoint_H T = cdiv (cexp (cadd (Num 1.1) (cmul (Num 0.06) T))) (Num 1000)"

definition setpoint_T :: cell where
  "setpoint_T = Num 16"

text \<open>
  The unsmoothed index of one step: the temperature with the solar and wind terms, then the
  humidity term around \<open>setpoint_T\<close>.
\<close>

definition unsmoothed_N :: "real \<Rightarrow> real \<Rightarrow> real \<Rightarrow> cell \<Rightarrow> cell \<Rightarrow> cell \<Rightarrow> cell \<Rightarrow> cell" where
  "unsmoothed_N solar_gains wind_chill humidity_discomfort T radiation wind_speed hum =
     (let N = cadd (cadd T (cmul (csub radiation (setpoint_S T)) (Num solar_gains)))
                   (cmul (csub wind_speed (setpoint_W T)) (Num wind_chill));
          discomfort = csub N setpoint_T
      in cadd (cadd setpoint_T discomfort)
              (cmul (cmul discomfort (csub hum (setpoint_H T))) (Num humidity_discomfort)))"

text \<open>The share of the raw temperature that is blended in, for one temperature cell.\<close>

definition blend :: "cell \<Rightarrow> cell" where
  "blend T =
     (let lower_blend = 15; upper_blend = 23; max_raw_var = 0.5;
          avg_blend = (lower_blend + upper_blend) / 2;
          dif_blend = upper_blend - lower_blend;
          b = cdiv (cmul (csub T (Num avg_blend)) (Num 10)) (Num dif_blend)
      in cdiv (Num max_raw_var) (cadd (Num 1) (cexp (cneg b))))"

text \<open>
  \<^verbatim>\<open>_bait_xarray\<close>: the unsmoothed index of every step, smoothed with the weights
  \<^verbatim>\<open>[1]*4 + [smoothing]*4 + [smoothing**2]*4\<close> and \<^verbatim>\<open>keep_all_days\<close> at its default
  \<^verbatim>\<open>False\<close>, then blended with the raw temperature.
\<close>

definition bait_xarray :: "weather \<Rightarrow> real \<Rightarrow> real \<Rightarrow> real \<Rightarrow> real \<Rightarrow> error + cell list" where
  "bait_xarray w smoothing solar_gains wind_chill humidity_discomfort =
     (let N = map (\<lambda>(T, radiation, wind_speed, hum).
                      unsmoothed_N solar_gains wind_chill humidity_discomfort
                        T radiation wind_speed hum)
                (zip (temperature w) (zip (radiation_global_horizontal w)
                   (zip (wind_speed_2m w) (humidity w))))
      in case smooth_temperature_xarray N
                (replicate 4 1 @ replicate 4 smoothing @ replicate 4 (smoothing ^ 2)) False of
           Inl e \<Rightarrow> Inl e
         | Inr smoothed \<Rightarrow>
             Inr (map2 (\<lambda>T n. cadd (cmul T (blend T)) (cmul n (csub (Num 1) (blend T))))
                    (temperature w) smoothed))"

text \<open>
  The end-to-end scenario of the specification: 16 steps, temperature 20 degrees, no
  radiation, no wind, humidity at its setpoint for 20 degrees.
\<close>

definition scenario_weather :: weather where
  "scenario_weather =
     \<lparr>humidity = replicate 16 (setpoint_H (Num 20)),
      radiation_global_horizontal = replicate 16 (Num 0),
      temperature = replicate 16 (Num 20),
      wind_speed_2m = replicate 16 (Num 0)\<rparr>"

section \<open>Wind power density\<close>

text \<open>
  \<^verbatim>\<open>calculate_wind_power_potential\<close> on a wind-speed array (a \<^verbatim>\<open>Dataset\<close> argument is
  first replaced by its wind-speed variable, which is where this model starts).
  \<^verbatim>\<open>hub_height\<close> is \<^verbatim>\<open>None\<close> or a positive height; the three \<^verbatim>\<open>where\<close> calls keep a
  cell where the comparison holds and replace it otherwise, also when the cell is NaN.
\<close>

definition calculate_wind_power_potential ::
    "cell list \<Rightarrow> real option \<Rightarrow> real \<Rightarrow> real \<Rightarrow> real \<Rightarrow> real \<Rightarrow> cell list" where
  "calculate_wind_power_potential da_wind hub_height alpha cap_speed cut_out_speed cut_in_speed =
     (let air_density = 1.225;
          da1 = (case hub_height of
                   None \<Rightarrow> da_wind
                 | Some h \<Rightarrow>
                     if h \<noteq> 100 then map (\<lambda>v. cmul v (Num ((h / 100) powr alpha))) da_wind
                     else da_wind);
          da2 = map (\<lambda>v. if cle v (Num cut_out_speed) then v else Num 0) da1;
          da3 = map (\<lambda>v. if cge v (Num cut_in_speed) then v else Num 0) da2;
          da4 = map (\<lambda>v. if cle v (Num cap_speed) then v else Num cap_speed) da3
      in map (\<lambda>v. cmul (Num (0.5 * air_density)) (cpow v 3)) da4)"

text \<open>The call with every optional argument at its default.\<close>

definition wind_power_density :: "cell list \<Rightarrow> cell list" where
  "wind_power_density da_wind = calculate_wind_power_potential da_wind None (1 / 7) 11 25 3"

section \<open>Properties of the degree days\<close>

text \<open>
  C4 (as the code has it). A NaN cell of the temperature does not stay NaN: both
  \<^verbatim>\<open>get_hdd\<close> and \<^verbatim>\<open>get_cdd\<close> give the number 0 there, for every threshold.
\<close>

theorem degree_days_at_nan:
  assumes "i < length temps" and "temps ! i = NaN"
  shows "get_hdd temps threshold ! i = Num 0 \<and> get_cdd temps threshold ! i = Num 0"
  using assms by (simp add: get_hdd_def get_cdd_def)

theorem degree_days_at_nan_witness:
  "(1::nat) < length [Num 3, NaN] \<and> [Num 3, NaN] ! 1 = NaN
   \<and> get_hdd [Num 3, NaN] 18 ! 1 = Num 0 \<and> get_cdd [Num 3, NaN] 18 ! 1 = Num 0"
  using degree_days_at_nan [of 1 "[Num 3, NaN]" 18] by simp

text \<open>
  C4, the claim as stated (a NaN input cell is NaN in the output) fails: the heating degree
  days of a single NaN cell are the number 0.
\<close>

theorem hdd_nan_not_propagated: "get_hdd [NaN] 18 = [Num 0] \<and> get_cdd [NaN] 18 = [Num 0]"
  by (simp add: get_hdd_def get_cdd_def)

text \<open>
  C7 (as the code has it). Heating and cooling degree days are numbers that are not
  negative at every cell, and at every cell whose temperature is a number their difference
  is the threshold minus the temperature.
\<close>

theorem degree_days_nonneg_and_difference:
  assumes "i < length temps"
  shows "(\<exists>h c. get_hdd temps base ! i = Num h \<and> 0 \<le> h
            \<and> get_cdd temps base ! i = Num c \<and> 0 \<le> c)
       \<and> (temps ! i \<noteq> NaN \<longrightarrow>
            csub (get_hdd temps base ! i) (get_cdd temps base ! i)
              = csub (Num base) (temps ! i))"
  using assms by (cases "temps ! i") (simp_all add: get_hdd_def get_cdd_def)

theorem degree_days_nonneg_and_difference_witness:
  "(0::nat) < length [Num 3] \<and> [Num 3] ! 0 \<noteq> NaN
   \<and> get_hdd [Num 3] 18 ! 0 = Num 15 \<and> get_cdd [Num 3] 18 ! 0 = Num 0
   \<and> csub (get_hdd [Num 3] 18 ! 0) (get_cdd [Num 3] 18 ! 0) = csub (Num 18) ([Num 3] ! 0)"
  using degree_days_nonneg_and_difference [of 0 "[Num 3]" 18]
  by (simp add: get_hdd_def get_cdd_def)

text \<open>
  C7, the claim as stated fails at a NaN cell: there both degree days are 0, so their
  difference is the number 0, while the threshold minus the temperature is NaN.
\<close>

theorem degree_days_difference_at_nan:
  "csub (get_hdd [NaN] 18 ! 0) (get_cdd [NaN] 18 ! 0) = Num 0
   \<and> csub (Num 18) ([NaN] ! 0) = NaN"
  by (simp add: get_hdd_def get_cdd_def)

text \<open>
  C10. Heating and cooling degree days are never both positive: their product is the
  number 0 at every cell, also where the temperature is NaN.
\<close>

theorem degree_days_product_zero:
  assumes "i < length temps"
  shows "cmul (get_hdd temps base ! i) (get_cdd temps base ! i) = Num 0"
  using assms by (cases "temps ! i") (simp_all add: get_hdd_def get_cdd_def)

theorem degree_days_product_zero_witness:
  "(1::nat) < length [Num 3, NaN]
   \<and> cmul (get_hdd [Num 3, NaN] 18 ! 1) (get_cdd [Num 3, NaN] 18 ! 1) = Num 0
   \<and> cmul (get_hdd [Num 3, NaN] 18 ! 0) (get_cdd [Num 3, NaN] 18 ! 0) = Num 0"
  using degree_days_product_zero [of 1 "[Num 3, NaN]" 18]
    degree_days_product_zero [of 0 "[Num 3, NaN]" 18]
  by simp

section \<open>Properties of the smoother\<close>

subsection \<open>Cells and windows\<close>

lemma fillna_NaN: "fillna NaN c = c"
  by (cases c) simp_all

lemma map_fillna_NaN: "map (fillna NaN) xs = xs"
  by (induction xs) (simp_all add: fillna_NaN)

lemma cadd_NaN_iff: "cadd a b = NaN \<longleftrightarrow> a = NaN \<or> b = NaN"
  by (cases a; cases b) simp_all

lemma cmul_Num_NaN_iff: "cmul a (Num w) = NaN \<longleftrightarrow> a = NaN"
  by (cases a) simp_all

lemma cdiv_NaN_iff: "d \<noteq> 0 \<Longrightarrow> cdiv a (Num d) = NaN \<longleftrightarrow> a = NaN"
  by (cases a) simp_all

lemma cadd_zero_right: "cadd a (Num 0) = a"
  by (cases a) simp_all

text \<open>A weighted sum is NaN exactly when its window holds a NaN, whatever the weights.\<close>

lemma dot_NaN_iff: "length xs = length ws \<Longrightarrow> dot xs ws = NaN \<longleftrightarrow> NaN \<in> set xs"
  by (induction xs ws rule: list_induct2) (auto simp: cadd_NaN_iff cmul_Num_NaN_iff)

lemma length_construct: "length (construct W xs) = length xs"
  by (simp add: construct_def)

lemma nth_construct:
  "t < length xs \<Longrightarrow> construct W xs ! t = take W (drop t (replicate (W - 1) NaN @ xs))"
  by (simp add: construct_def)

lemma length_window: "t < length xs \<Longrightarrow> length (construct W xs ! t) = W"
  by (cases W) (simp_all add: nth_construct)

lemma nth_take_drop:
  "t \<le> length P \<Longrightarrow> j < W \<Longrightarrow> take W (drop t P) ! j = P ! (t + j)"
  by simp

text \<open>
  The window of step \<open>t\<close> holds a NaN exactly when it reaches into the padding
  (\<open>t < W - 1\<close>) or covers a NaN cell of the series.
\<close>

lemma window_has_NaN:
  assumes "t < length xs" "0 < W"
  shows "NaN \<in> set (construct W xs ! t)
     \<longleftrightarrow> t < W - 1 \<or> (\<exists>k < length xs. k \<le> t \<and> t < k + W \<and> xs ! k = NaN)"
proof -
  let ?P = "replicate (W - 1) NaN @ xs"
  have len: "length (take W (drop t ?P)) = W" using assms by simp
  have elt: "take W (drop t ?P) ! j = (if t + j < W - 1 then NaN else xs ! (t + j - (W - 1)))"
    if "j < W" for j
  proof -
    have "t \<le> length ?P" using assms by simp
    then have "take W (drop t ?P) ! j = ?P ! (t + j)"
      using that by (rule nth_take_drop)
    also have "\<dots> = (if t + j < W - 1 then NaN else xs ! (t + j - (W - 1)))"
      by (simp add: nth_append)
    finally show ?thesis .
  qed
  have "NaN \<in> set (take W (drop t ?P)) \<longleftrightarrow> (\<exists>j < W. take W (drop t ?P) ! j = NaN)"
    using len by (metis in_set_conv_nth)
  also have "\<dots> \<longleftrightarrow> (\<exists>j < W. (if t + j < W - 1 then NaN else xs ! (t + j - (W - 1))) = NaN)"
    using elt by auto
  also have "\<dots> \<longleftrightarrow> t < W - 1 \<or> (\<exists>k < length xs. k \<le> t \<and> t < k + W \<and> xs ! k = NaN)"
  proof
    assume "\<exists>j < W. (if t + j < W - 1 then NaN else xs ! (t + j - (W - 1))) = NaN"
    then obtain j where j: "j < W" "(if t + j < W - 1 then NaN else xs ! (t + j - (W - 1))) = NaN"
      by blast
    show "t < W - 1 \<or> (\<exists>k < length xs. k \<le> t \<and> t < k + W \<and> xs ! k = NaN)"
    proof (cases "t + j < W - 1")
      case True
      then show ?thesis by simp
    next
      case False
      with j have "xs ! (t + j - (W - 1)) = NaN" by simp
      moreover have "t + j - (W - 1) < length xs" "t + j - (W - 1) \<le> t" "t < t + j - (W - 1) + W"
        using j False assms by auto
      ultimately show ?thesis by blast
    qed
  next
    assume "t < W - 1 \<or> (\<exists>k < length xs. k \<le> t \<and> t < k + W \<and> xs ! k = NaN)"
    then show "\<exists>j < W. (if t + j < W - 1 then NaN else xs ! (t + j - (W - 1))) = NaN"
    proof
      assume "t < W - 1"
      then show ?thesis using assms by (intro exI[of _ 0]) simp
    next
      assume "\<exists>k < length xs. k \<le> t \<and> t < k + W \<and> xs ! k = NaN"
      then obtain k where k: "k < length xs" "k \<le> t" "t < k + W" "xs ! k = NaN" by blast
      let ?j = "k + (W - 1) - t"
      have "?j < W" "\<not> t + ?j < W - 1" "t + ?j - (W - 1) = k" using k assms by auto
      then show ?thesis using k by (intro exI[of _ ?j]) simp
    qed
  qed
  finally show ?thesis using assms by (simp add: nth_construct)
qed

subsection \<open>The path without \<^verbatim>\<open>keep_all_days\<close>\<close>

lemma smooth_False_eq:
  assumes "ws \<noteq> []" "xs \<noteq> []"
  shows "smooth_temperature_xarray xs ws False
     = Inr (map (\<lambda>window. cdiv (dot window (rev ws)) (Num (sum_list ws))) (construct (length ws) xs))"
  using assms by (simp add: smooth_temperature_xarray_def Let_def map_fillna_NaN comp_def)

lemma smooth_False_nth:
  assumes "ws \<noteq> []" "s < length xs"
  shows "\<exists>out. smooth_temperature_xarray xs ws False = Inr out \<and> length out = length xs
     \<and> out ! s = cdiv (dot (construct (length ws) xs ! s) (rev ws)) (Num (sum_list ws))"
proof -
  from assms have "xs \<noteq> []" by auto
  with assms show ?thesis
    by (simp add: smooth_False_eq length_construct)
qed

lemma construct_one: "construct (Suc 0) xs = map (\<lambda>x. [x]) xs"
proof (rule nth_equalityI)
  show "length (construct (Suc 0) xs) = length (map (\<lambda>x. [x]) xs)"
    by (simp add: length_construct)
next
  fix i assume "i < length (construct (Suc 0) xs)"
  then have i: "i < length xs" by (simp add: length_construct)
  then show "construct (Suc 0) xs ! i = map (\<lambda>x. [x]) xs ! i"
    by (simp add: nth_construct take_Suc_conv_app_nth hd_drop_conv_nth take_Suc)
qed

subsection \<open>The normalization loop of the \<^verbatim>\<open>keep_all_days\<close> path\<close>

lemma length_norm_step: "length (norm_step ws nf i) = length nf"
  by (simp add: norm_step_def Let_def)

lemma norm_step_nth_low:
  "j < length nf \<Longrightarrow> j \<le> i
   \<Longrightarrow> norm_step ws nf i ! j = sum_list (drop (length ws - (i + 1)) ws)"
  by (simp add: norm_step_def Let_def nth_append)

lemma norm_step_nth_high:
  assumes "j < length nf" "i < j"
  shows "norm_step ws nf i ! j = nf ! j"
proof -
  define c where "c = sum_list (drop (length ws - (i + 1)) ws)"
  have m: "min (i + 1) (length nf) = i + 1" using assms by simp
  have "norm_step ws nf i = replicate (i + 1) c @ drop (i + 1) nf"
    unfolding norm_step_def Let_def m c_def ..
  then have "norm_step ws nf i ! j = drop (i + 1) nf ! (j - (i + 1))"
    using assms by (simp add: nth_append del: replicate_Suc)
  also have "\<dots> = nf ! j" using assms by simp
  finally show ?thesis .
qed

lemma length_norm_loop: "length (foldl (norm_step ws) nf [0..<k]) = length nf"
  by (induction k) (simp_all add: length_norm_step)

lemma norm_loop_nth_high:
  "j < length nf \<Longrightarrow> k \<le> j \<Longrightarrow> foldl (norm_step ws) nf [0..<k] ! j = nf ! j"
  by (induction k) (simp_all add: norm_step_nth_high length_norm_loop)

text \<open>
  Every iteration overwrites the positions the earlier ones wrote, and the last one writes
  the sum of all the weights: when the loop ends every factor is the full weight sum.
\<close>

lemma normalization_factors_all_total:
  "normalization_factors n ws = replicate n (sum_list ws)"
proof (rule nth_equalityI)
  show "length (normalization_factors n ws) = length (replicate n (sum_list ws))"
    by (simp add: normalization_factors_def length_norm_loop)
next
  fix j assume "j < length (normalization_factors n ws)"
  then have j: "j < n" by (simp add: normalization_factors_def length_norm_loop)
  show "normalization_factors n ws ! j = replicate n (sum_list ws) ! j"
  proof (cases "j < length ws")
    case True
    then obtain k where k: "length ws = Suc k" by (cases "length ws") auto
    with True have "j \<le> k" by simp
    then have "normalization_factors n ws ! j = sum_list (drop (length ws - (k + 1)) ws)"
      using j k by (simp add: normalization_factors_def norm_step_nth_low length_norm_loop)
    then show ?thesis using j k by simp
  next
    case False
    then show ?thesis using j
      by (simp add: normalization_factors_def norm_loop_nth_high)
  qed
qed

text \<open>
  So with \<^verbatim>\<open>keep_all_days\<close> every step, also each of the first \<open>W - 1\<close>, is the
  zero-filled weighted sum of its window divided by the full weight sum.
\<close>

lemma smooth_True_eq:
  assumes "ws \<noteq> []" "xs \<noteq> []" "NaN \<notin> set xs"
  shows "smooth_temperature_xarray xs ws True
     = Inr (map (\<lambda>window. cdiv (dot (map (fillna (Num 0)) window) (rev ws)) (Num (sum_list ws)))
              (construct (length ws) xs))"
proof -
  have "map2 (\<lambda>s f. cdiv s (Num f)) ys (replicate (length ys) c) = map (\<lambda>s. cdiv s (Num c)) ys"
    for ys :: "cell list" and c
    by (induction ys) simp_all
  then show ?thesis using assms
    by (simp add: smooth_temperature_xarray_def Let_def normalization_factors_all_total comp_def)
qed

subsection \<open>Claims about the smoother\<close>

text \<open>
  C1. The claim asks that with \<^verbatim>\<open>keep_all_days\<close> each of the first \<open>W - 1\<close> steps is
  divided by the sum of the weights of its truncated window. The code divides every step
  by the full weight sum: for the constant series 8, 8 and the weights 3 (current step)
  and 1 (previous step), step 0 comes out as 3 * 8 / 4 = 6, where the divisor of the
  claim, 3, gives 8.
\<close>

theorem smooth_keep_all_days_first_step:
  "smooth_temperature_xarray [Num 8, Num 8] [3, 1] True = Inr [Num 6, Num 8]
   \<and> cdiv (Num (3 * 8)) (Num (spec_truncated_weight_sum [3, 1] 0)) = Num 8"
  by (simp add: smooth_temperature_xarray_def construct_def normalization_factors_def
      norm_step_def spec_truncated_weight_sum_def Let_def upt_rec)

text \<open>
  C3 (as the code has it). Without \<^verbatim>\<open>keep_all_days\<close> the call returns a series of the
  length of its input, and every step \<open>t\<close> with fewer than \<open>W - 1\<close> prior steps is NaN,
  whatever the input holds: the padding of its window stays NaN.
\<close>

theorem smooth_warm_up_is_nan:
  assumes "t < length temps" and "t < length weights - 1"
  shows "\<exists>out. smooth_temperature_xarray temps weights False = Inr out
           \<and> length out = length temps \<and> out ! t = NaN"
proof -
  from assms have ws: "weights \<noteq> []" "0 < length weights" by auto
  obtain out where out: "smooth_temperature_xarray temps weights False = Inr out"
      "length out = length temps"
      "out ! t = cdiv (dot (construct (length weights) temps ! t) (rev weights))
                   (Num (sum_list weights))"
    using smooth_False_nth [OF ws(1) assms(1)] by blast
  have "NaN \<in> set (construct (length weights) temps ! t)"
    using window_has_NaN [OF assms(1) ws(2)] assms(2) by simp
  then have "dot (construct (length weights) temps ! t) (rev weights) = NaN"
    using dot_NaN_iff [of "construct (length weights) temps ! t" "rev weights"]
      length_window [OF assms(1), of "length weights"] by simp
  with out show ?thesis by simp
qed

theorem smooth_warm_up_is_nan_witness:
  "(0::nat) < length [Num 1, Num 2] \<and> (0::nat) < length [1, 1 :: real] - 1
   \<and> (\<exists>out. smooth_temperature_xarray [Num 1, Num 2] [1, 1] False = Inr out
          \<and> length out = length [Num 1, Num 2] \<and> out ! 0 = NaN)"
  using smooth_warm_up_is_nan [of 0 "[Num 1, Num 2]" "[1, 1]"] by simp

text \<open>
  C3, the claim as stated fails: for the series 1, 2 and two weights 1, step 0 is NaN and
  not the truncated weighted sum 1 * 1 divided by the weight sum 2.
\<close>

theorem smooth_warm_up_not_truncated_sum:
  "smooth_temperature_xarray [Num 1, Num 2] [1, 1] False = Inr [NaN, Num (3 / 2)]
   \<and> cdiv (Num (1 * 1)) (Num (sum_list [1, 1])) = Num (1 / 2)"
  by (simp add: smooth_temperature_xarray_def construct_def Let_def upt_rec)

text \<open>
  C5. With \<^verbatim>\<open>keep_all_days\<close>, a series that holds a NaN makes the call fail on its
  assertion, before any window is built, whatever the weights.
\<close>

theorem smooth_keep_all_days_rejects_nan:
  assumes "NaN \<in> set temps"
  shows "smooth_temperature_xarray temps weights True = Inl AssertionError"
  using assms by (simp add: smooth_temperature_xarray_def)

theorem smooth_keep_all_days_rejects_nan_witness:
  "NaN \<in> set [Num 1, NaN, Num 3]
   \<and> smooth_temperature_xarray [Num 1, NaN, Num 3] [1, 1] True = Inl AssertionError"
  using smooth_keep_all_days_rejects_nan [of "[Num 1, NaN, Num 3]" "[1, 1]"] by simp

text \<open>
  C6 (as the code has it). Without \<^verbatim>\<open>keep_all_days\<close>, for weights whose sum is not
  zero and a series whose only NaN is at step \<open>t\<close>, the output is NaN at the steps \<open>t\<close> to
  \<open>t + W - 1\<close> and at the steps before \<open>W - 1\<close>, and at no other step; so at no step after
  \<open>t + W - 1\<close>.
\<close>

theorem smooth_single_nan_spread:
  assumes ws: "weights \<noteq> []" and total: "sum_list weights \<noteq> 0"
    and t: "t < length temps" and nan: "temps ! t = NaN"
    and others: "\<forall>s < length temps. s \<noteq> t \<longrightarrow> temps ! s \<noteq> NaN"
  shows "\<exists>out. smooth_temperature_xarray temps weights False = Inr out
           \<and> length out = length temps
           \<and> (\<forall>s < length temps.
                 out ! s = NaN \<longleftrightarrow> s < length weights - 1 \<or> (t \<le> s \<and> s < t + length weights))"
proof -
  let ?W = "length weights"
  have W: "0 < ?W" using ws by simp
  have xs: "temps \<noteq> []" using t by auto
  let ?out = "map (\<lambda>window. cdiv (dot window (rev weights)) (Num (sum_list weights)))
                (construct ?W temps)"
  have eq: "smooth_temperature_xarray temps weights False = Inr ?out"
    using smooth_False_eq [OF ws xs] .
  have len: "length ?out = length temps" by (simp add: length_construct)
  have "?out ! s = NaN \<longleftrightarrow> s < ?W - 1 \<or> (t \<le> s \<and> s < t + ?W)"
    if s: "s < length temps" for s
  proof -
    have "?out ! s = cdiv (dot (construct ?W temps ! s) (rev weights)) (Num (sum_list weights))"
      using s by (simp add: length_construct)
    then have "?out ! s = NaN \<longleftrightarrow> dot (construct ?W temps ! s) (rev weights) = NaN"
      using total by (simp add: cdiv_NaN_iff)
    also have "\<dots> \<longleftrightarrow> NaN \<in> set (construct ?W temps ! s)"
      using dot_NaN_iff [of "construct ?W temps ! s" "rev weights"] length_window [OF s, of ?W]
      by simp
    also have "\<dots> \<longleftrightarrow> s < ?W - 1
        \<or> (\<exists>k < length temps. k \<le> s \<and> s < k + ?W \<and> temps ! k = NaN)"
      using window_has_NaN [OF s W] .
    also have "(\<exists>k < length temps. k \<le> s \<and> s < k + ?W \<and> temps ! k = NaN)
        \<longleftrightarrow> (t \<le> s \<and> s < t + ?W)"
      using t nan others by blast
    finally show ?thesis .
  qed
  with eq len show ?thesis by blast
qed

theorem smooth_single_nan_spread_witness:
  "\<exists>out. smooth_temperature_xarray [Num 1, Num 2, NaN, Num 4, Num 5, Num 6] [1, 1] False = Inr out
      \<and> length out = 6
      \<and> out ! 0 = NaN \<and> out ! 1 \<noteq> NaN \<and> out ! 2 = NaN \<and> out ! 3 = NaN
      \<and> out ! 4 \<noteq> NaN \<and> out ! 5 \<noteq> NaN"
proof -
  let ?xs = "[Num 1, Num 2, NaN, Num 4, Num 5, Num 6]"
  have others: "\<forall>s < length ?xs. s \<noteq> 2 \<longrightarrow> ?xs ! s \<noteq> NaN"
    by (simp add: nth_Cons' less_Suc_eq)
  have "[1, 1 :: real] \<noteq> []" "sum_list [1, 1 :: real] \<noteq> 0" "2 < length ?xs" "?xs ! 2 = NaN"
    by simp_all
  from smooth_single_nan_spread [OF this others]
  obtain out where out: "smooth_temperature_xarray ?xs [1, 1] False = Inr out"
      "length out = length ?xs"
      "\<forall>s < length ?xs. out ! s = NaN \<longleftrightarrow> s < length [1, 1 :: real] - 1 \<or> (2 \<le> s \<and> s < 2 + length [1, 1 :: real])"
    by blast
  from out(3) have "out ! 0 = NaN" "out ! 1 \<noteq> NaN" "out ! 2 = NaN" "out ! 3 = NaN"
      "out ! 4 \<noteq> NaN" "out ! 5 \<noteq> NaN"
    by simp_all
  with out(1,2) show ?thesis by simp
qed

text \<open>
  C6, the claim as stated fails: with the weights 1 and -1, whose sum is zero, and the
  series 1, NaN, 1, 1 (the NaN at step 1, and \<open>W - 1 = 1\<close>), the output is NaN also at
  step 3, after step \<open>t + W - 1 = 2\<close> (there the quotient is 0 / 0), and at step 0, before
  step \<open>t\<close> (the padded window).
\<close>

theorem smooth_nan_beyond_window:
  "smooth_temperature_xarray [Num 1, NaN, Num 1, Num 1] [1, - 1] False
     = Inr [NaN, NaN, NaN, NaN]"
  by (simp add: smooth_temperature_xarray_def construct_def Let_def upt_rec)

text \<open>
  C9 (as the code has it). For a single weight \<open>w\<close> and a series with at least one step,
  the smoother without \<^verbatim>\<open>keep_all_days\<close> returns a series of the same length whose
  every cell is the input cell multiplied by \<open>w\<close> and then divided by \<open>w\<close>. (In the
  code these are two floating-point operations, so for \<open>w\<close> not zero the result is the
  input up to their rounding; for \<open>w = 0\<close> every cell is \<open>0 / 0\<close>, NaN.)
\<close>

theorem smooth_single_weight:
  assumes "temps \<noteq> []"
  shows "smooth_temperature_xarray temps [w] False
           = Inr (map (\<lambda>x. cdiv (cmul x (Num w)) (Num w)) temps)"
  using assms by (simp add: smooth_False_eq construct_one comp_def cadd_zero_right)

theorem smooth_single_weight_witness:
  "[Num 3, NaN, Num 5] \<noteq> []
   \<and> smooth_temperature_xarray [Num 3, NaN, Num 5] [2] False
       = Inr [cdiv (cmul (Num 3) (Num 2)) (Num 2), NaN, cdiv (cmul (Num 5) (Num 2)) (Num 2)]
   \<and> smooth_temperature_xarray [Num 3, NaN, Num 5] [2] False = Inr [Num 3, NaN, Num 5]"
  using smooth_single_weight [of "[Num 3, NaN, Num 5]" 2] by simp

text \<open>
  C9, the claim as stated (for every input series) fails on the series without a step:
  the call does not return the series, it raises \<^verbatim>\<open>ValueError\<close>.
\<close>

theorem smooth_single_weight_empty_series:
  "smooth_temperature_xarray [] [2] False = Inl ValueError
   \<and> smooth_temperature_xarray [] [2] False \<noteq> Inr []"
  by (simp add: smooth_temperature_xarray_def)

section \<open>Properties of the building-adjusted internal temperature\<close>

lemma one_plus_exp_nonzero: "1 + exp (x::real) \<noteq> 0"
  using exp_gt_zero [of x] by linarith

text \<open>
  The scenario, evaluated: the unsmoothed index is 20 at every step, the smoother leaves
  the first 11 steps NaN (their windows of 12 reach into the padding), and the blend of 20
  with 20 is 20.
\<close>

lemma bait_scenario_value:
  "bait_xarray scenario_weather (1 / 2) 0 0 0 = Inr (replicate 11 NaN @ replicate 5 (Num 20))"
proof -
  have N: "map (\<lambda>(T, radiation, wind_speed, hum). unsmoothed_N 0 0 0 T radiation wind_speed hum)
             (zip (temperature scenario_weather)
                (zip (radiation_global_horizontal scenario_weather)
                   (zip (wind_speed_2m scenario_weather) (humidity scenario_weather))))
           = replicate 16 (Num 20)"
    by (simp add: scenario_weather_def unsmoothed_N_def setpoint_S_def setpoint_W_def
        setpoint_H_def setpoint_T_def Let_def)
  have S: "smooth_temperature_xarray (replicate 16 (Num 20))
             (replicate 4 1 @ replicate 4 (1 / 2) @ replicate 4 ((1 / 2)\<^sup>2)) False
           = Inr (replicate 11 NaN @ replicate 5 (Num 20))"
    by (simp add: smooth_temperature_xarray_def construct_def Let_def upt_rec eval_nat_numeral)
  have B: "map2 (\<lambda>T n. cadd (cmul T (blend T)) (cmul n (csub (Num 1) (blend T))))
             (temperature scenario_weather) (replicate 11 NaN @ replicate 5 (Num 20))
           = replicate 11 NaN @ replicate 5 (Num 20)"
    by (simp add: scenario_weather_def blend_def Let_def eval_nat_numeral
        one_plus_exp_nonzero algebra_simps)
  show ?thesis
    unfolding bait_xarray_def Let_def N S by (simp add: B)
qed

text \<open>
  C2 (as the code has it). In the end-to-end scenario with \<^verbatim>\<open>smoothing=0.5\<close> and the
  other three parameters 0, the output is NaN at the first 11 steps and 20 degrees at the
  steps 11 to 15.
\<close>

theorem bait_scenario:
  "bait_xarray scenario_weather (1 / 2) 0 0 0 = Inr (replicate 11 NaN @ replicate 5 (Num 20))"
  by (rule bait_scenario_value)

text \<open>
  C2, the claim as stated (20 degrees at every one of the 16 steps) fails: the output of
  step 0 is NaN.
\<close>

theorem bait_scenario_first_step_nan:
  "\<exists>out. bait_xarray scenario_weather (1 / 2) 0 0 0 = Inr out \<and> length out = 16
      \<and> out ! 0 = NaN \<and> out ! 0 \<noteq> Num 20"
  by (simp add: bait_scenario_value nth_append)

section \<open>Properties of the wind power density\<close>

text \<open>
  C8. With the default thresholds (cut-in 3, cap 11, cut-out 25) the wind power density
  is 0 at a cell whose wind speed is below the cut-in speed or above the cut-out speed,
  and \<open>0.5 * 1.225 * 11^3\<close> at a cell whose wind speed is at least the cap speed and below
  the cut-out speed.
\<close>

theorem wind_power_density_zero_and_plateau:
  assumes "i < length da_wind" and "da_wind ! i = Num v"
  shows "((v < 3 \<or> 25 < v) \<longrightarrow> wind_power_density da_wind ! i = Num 0)
       \<and> (11 \<le> v \<and> v < 25 \<longrightarrow> wind_power_density da_wind ! i = Num (0.5 * 1.225 * 11 ^ 3))"
  using assms
  by (auto simp: wind_power_density_def calculate_wind_power_potential_def Let_def)

theorem wind_power_density_zero_and_plateau_witness:
  "wind_power_density [Num 2.9, Num 25.1, Num 11, Num 20] ! 0 = Num 0
   \<and> wind_power_density [Num 2.9, Num 25.1, Num 11, Num 20] ! 1 = Num 0
   \<and> wind_power_density [Num 2.9, Num 25.1, Num 11, Num 20] ! 2 = Num 815.2375
   \<and> wind_power_density [Num 2.9, Num 25.1, Num 11, Num 20] ! 3 = Num 815.2375"
  using wind_power_density_zero_and_plateau [of 0 "[Num 2.9, Num 25.1, Num 11, Num 20]" "2.9"]
    wind_power_density_zero_and_plateau [of 1 "[Num 2.9, Num 25.1, Num 11, Num 20]" "25.1"]
    wind_power_density_zero_and_plateau [of 2 "[Num 2.9, Num 25.1, Num 11, Num 20]" 11]
    wind_power_density_zero_and_plateau [of 3 "[Num 2.9, Num 25.1, Num 11, Num 20]" 20]
  by simp

end
